theory Spec2Isabelle
  imports Main "HOL-Library.AList"
begin

section \<open>The tab worker of the background script\<close>

text \<open>
  A shallow embedding of \<^verbatim>\<open>src/core/background/object/tab-worker.js\<close>. The class
  \<^verbatim>\<open>TabWorker\<close> keeps three mutable fields, \<^verbatim>\<open>currentTabId\<close>, \<^verbatim>\<open>activeTabId\<close> and
  \<^verbatim>\<open>tabControllers\<close>, and talks to collaborators that live in other modules: the
  \<^verbatim>\<open>Controller\<close> class, the controller modes, the browser action, the options storage,
  the context menu and the console. Every method becomes a function from the worker
  state to the worker state; a method that can raise returns the exception next to the
  state in which it was raised, because JavaScript keeps the assignments made before a
  \<^verbatim>\<open>throw\<close>.

  An \<^verbatim>\<open>async\<close> method runs until its next \<^verbatim>\<open>await\<close>; other handlers may run before
  it goes on. \<^verbatim>\<open>tryToInjectConnector\<close> changes the table on both sides of an
  \<^verbatim>\<open>await\<close>, so it is modelled in the pieces between its \<^verbatim>\<open>await\<close>s, and the
  worker state lists the continuations that wait. \<^verbatim>\<open>processCommand\<close> and
  \<^verbatim>\<open>processMessage\<close> read and write no field of the worker after their one
  \<^verbatim>\<open>await\<close> (of \<^verbatim>\<open>ctrl.toggleLove\<close>) and are modelled in one piece. The value an \<^verbatim>\<open>await\<close> resolves
  to is an argument of the function (the injection result, the connector found for a
  URL) or is read from the state (the options storage), and a rejected promise is the
  exception of the result.
\<close>

subsection \<open>Data\<close>

type_synonym tab_id = int

text \<open>\<^verbatim>\<open>tabs.TAB_ID_NONE\<close> of the WebExtension API.\<close>

definition TAB_ID_NONE :: tab_id where
  "TAB_ID_NONE = - 1"

text \<open>A connector match object; the worker reads its \<^verbatim>\<open>id\<close> and its \<^verbatim>\<open>label\<close>.\<close>

record connector =
  id_connector :: string
  label :: string

datatype error =
  TypeError string
  | Rejected string

text \<open>
  A controller object. The worker reads \<^verbatim>\<open>tabId\<close>, \<^verbatim>\<open>getConnector()\<close>,
  \<^verbatim>\<open>isEnabled\<close> and \<^verbatim>\<open>mode\<close> (also through \<^verbatim>\<open>getMode()\<close>); everything else the
  controller keeps (the song, timers) is the opaque component \<open>song\<close>. The component
  \<open>oid\<close> is the identity of the object: the closures of the context menu hold a
  reference to a controller, not a tab id.
\<close>

record ('m, 's) controller =
  tabId :: tab_id
  connector :: connector
  isEnabled :: bool
  mode :: 'm
  song :: 's
  oid :: nat

text \<open>
  The parts of \<^verbatim>\<open>object/controller\<close> and \<^verbatim>\<open>object/controller-mode\<close> that the worker
  calls are parameters of the model: the classification of modes, the state of a freshly
  constructed controller, and the methods that work on the controller's own state.
  \<open>toggleLove\<close> is asynchronous and may reject; \<open>getCurrentSong\<close> may return
  \<^verbatim>\<open>null\<close>.

  A controller reports a change of its mode through \<^verbatim>\<open>onModeChanged\<close>, which
  \<^verbatim>\<open>createController\<close> wires to \<^verbatim>\<open>processControlleModeChange\<close>.
  \<open>onStateChanged\<close>, the method a port message is forwarded to, is given the whole
  controller and returns its new state together with the modes it went through before
  it returned: after each of them the controller has called \<^verbatim>\<open>onModeChanged\<close>. A mode
  change at any other moment (a timer, a promise that settles, another method) is an
  event of its own below. The other two callbacks set by \<^verbatim>\<open>createController\<close> are left
  out: \<^verbatim>\<open>onSongUpdated\<close> only sends a message (\<^verbatim>\<open>notifySongIsUpdated\<close>), and
  \<^verbatim>\<open>onControllerEvent\<close> goes to the listener of the subclass.
\<close>

record ('m, 's, 'g, 'd) externals =
  isActiveMode :: "'m \<Rightarrow> bool"
  isInactiveMode :: "'m \<Rightarrow> bool"
  initialMode :: "bool \<Rightarrow> 'm"
  initialSong :: "'s"
  getCurrentSong :: "'s \<Rightarrow> 'g option"
  toggleLove :: "'s \<Rightarrow> bool \<Rightarrow> (error + unit) \<times> 's"
  setUserSongData :: "'s \<Rightarrow> 'd \<Rightarrow> 's"
  skipCurrentSong :: "'s \<Rightarrow> 's"
  resetSongData :: "'s \<Rightarrow> 's"
  onStateChanged :: "('m, 's) controller \<Rightarrow> 'd \<Rightarrow> 's \<times> 'm list"

text \<open>The \<^verbatim>\<open>data\<close> object of a message: the field \<^verbatim>\<open>isLoved\<close> and the rest.\<close>

record 'd data =
  isLoved :: bool
  payload :: 'd

text \<open>What \<^verbatim>\<open>processMessage\<close> resolves to.\<close>

datatype 'g response =
  RespUndefined
  | RespTabId tab_id
  | RespSong 'g
  | RespBool bool

text \<open>
  A reference to a controller as a closure of the context menu holds it: the identity of
  the object and its connector, which never changes.
\<close>

datatype ctrl_ref = CtrlRef nat connector

text \<open>
  The \<^verbatim>\<open>onClicked\<close> callbacks given to \<^verbatim>\<open>addContextMenuItem\<close>:
  \<^verbatim>\<open>() => this.setConnectorState(ctrl, newState)\<close> and \<^verbatim>\<open>() => ctrl.setEnabled(false)\<close>.
\<close>

datatype menu_action =
  ToggleConnector ctrl_ref bool
  | DisableUntilTabClosed ctrl_ref

text \<open>
  An item created by \<^verbatim>\<open>contextMenus.create\<close>: the title is the message id and the label
  given to \<^verbatim>\<open>i18n.getMessage\<close>, and \<open>item_tab\<close> is the \<^verbatim>\<open>tabId\<close> captured by the
  \<^verbatim>\<open>onclick\<close> closure.
\<close>

record menu_item =
  title :: "string \<times> string"
  item_tab :: tab_id
  action :: menu_action

text \<open>Calls to collaborators that only receive: they are recorded in call order.\<close>

datatype effect =
  BrowserActionReset
  | BrowserActionUpdate tab_id
  | BrowserActionSongLoved bool
  | ConsoleWarn string tab_id
  | ControllerFinish nat
  | TabsSendMessage tab_id string
  | ConnectorActivated connector

text \<open>
  A continuation of \<^verbatim>\<open>tryToInjectConnector\<close> that waits at an \<^verbatim>\<open>await\<close>: inside
  \<^verbatim>\<open>createController\<close> for \<^verbatim>\<open>Options.isConnectorEnabled(connector)\<close>, or in the
  \<^verbatim>\<open>MATCHED\<close> case for \<^verbatim>\<open>this.createController(tabId, connector)\<close>.
\<close>

datatype pending =
  AwaitIsConnectorEnabled tab_id connector
  | AwaitCreateController tab_id connector

text \<open>
  The worker. \<open>tabControllers\<close> is the JavaScript array used as a sparse table: an
  association list in the order in which the properties were created. \<open>contextMenu\<close>
  is the menu held by the browser, \<open>connectorEnabled\<close> the options storage behind
  \<^verbatim>\<open>Options.isConnectorEnabled\<close> and \<^verbatim>\<open>Options.setConnectorEnabled\<close>. Two
  components belong to the JavaScript run time rather than to the object: \<open>unloaded\<close>
  are the controller objects that \<^verbatim>\<open>unloadController\<close> took out of the table (their
  callbacks still point to the worker), and \<open>pending\<close> are the continuations that
  wait at an \<^verbatim>\<open>await\<close>.
\<close>

record ('m, 's) worker =
  currentTabId :: tab_id
  activeTabId :: tab_id
  tabControllers :: "(tab_id \<times> ('m, 's) controller) list"
  contextMenu :: "menu_item list"
  connectorEnabled :: "connector \<Rightarrow> bool"
  effects :: "effect list"
  nextOid :: nat
  unloaded :: "('m, 's) controller list"
  pending :: "pending list"

type_synonym ('m, 's, 'v) result = "(error + 'v) \<times> ('m, 's) worker"

datatype inject_result = INJECTED | MATCHED | NO_MATCH

subsection \<open>The table of controllers\<close>

definition getController :: "('m, 's) worker \<Rightarrow> tab_id \<Rightarrow> ('m, 's) controller option" where
  "getController s t = map_of (tabControllers s) t"

text \<open>
  \<^verbatim>\<open>for (const tabId in this.tabControllers)\<close> visits the array indices in ascending
  order, then the other keys in the order of their creation. An array index is an
  integer from 0 to \<open>2\<^sup>3\<^sup>2 - 2\<close>.
\<close>

definition isArrayIndex :: "tab_id \<Rightarrow> bool" where
  "isArrayIndex k \<longleftrightarrow> 0 \<le> k \<and> k < 4294967295"

definition forInKeys :: "(tab_id \<times> 'c) list \<Rightarrow> tab_id list" where
  "forInKeys al =
     sort (filter isArrayIndex (map fst al)) @ filter (\<lambda>k. \<not> isArrayIndex k) (map fst al)"

definition forInValues :: "(tab_id \<times> 'c) list \<Rightarrow> 'c list" where
  "forInValues al = List.map_filter (map_of al) (forInKeys al)"

definition emit :: "effect \<Rightarrow> ('m, 's) worker \<Rightarrow> ('m, 's) worker" where
  "emit e s = s\<lparr>effects := effects s @ [e]\<rparr>"

text \<open>A method of the controller stored under \<open>t\<close> that changes its own state.\<close>

definition onSong :: "tab_id \<Rightarrow> ('s \<Rightarrow> 's) \<Rightarrow> ('m, 's) worker \<Rightarrow> ('m, 's) worker" where
  "onSong t f s =
     s\<lparr>tabControllers := AList.map_entry t (\<lambda>c. c\<lparr>song := f (song c)\<rparr>) (tabControllers s)\<rparr>"

text \<open>
  Modelled from the spec: \<^verbatim>\<open>Controller.setEnabled(flag)\<close>, which is not in the source
  tree, sets the enabled flag of the controller. It acts on the object the closure holds;
  an object that is no longer in the table is out of the worker's sight.
\<close>

definition setEnabled :: "nat \<Rightarrow> bool \<Rightarrow> ('m, 's) worker \<Rightarrow> ('m, 's) worker" where
  "setEnabled i b s =
     s\<lparr>tabControllers :=
         map (\<lambda>(k, c). (k, if oid c = i then c\<lparr>isEnabled := b\<rparr> else c)) (tabControllers s)\<rparr>"

subsection \<open>Private methods\<close>

text \<open>
  \<^verbatim>\<open>initialize\<close>: \<open>currentTab\<close> is what \<^verbatim>\<open>getCurrentTab()\<close> resolved to, \<open>opts\<close> the
  content of the options storage. The browser starts the background page with an empty
  context menu.
\<close>

definition initialize :: "tab_id option \<Rightarrow> (connector \<Rightarrow> bool) \<Rightarrow> ('m, 's) worker" where
  "initialize currentTab opts =
     \<lparr>currentTabId = (case currentTab of Some t \<Rightarrow> t | None \<Rightarrow> TAB_ID_NONE),
      activeTabId = TAB_ID_NONE,
      tabControllers = [],
      contextMenu = [],
      connectorEnabled = opts,
      effects = [BrowserActionReset],
      nextOid = 0,
      unloaded = [],
      pending = []\<rparr>"

definition updateBrowserAction :: "('m, 's) worker \<Rightarrow> tab_id \<Rightarrow> ('m, 's) worker" where
  "updateBrowserAction s t =
     (case getController s t of
        Some ctrl \<Rightarrow> emit (BrowserActionUpdate t) s
      | None \<Rightarrow> emit BrowserActionReset s)"

definition shouldUpdateBrowserAction ::
  "('m, 's, 'g, 'd) externals \<Rightarrow> ('m, 's) worker \<Rightarrow> tab_id \<Rightarrow> bool" where
  "shouldUpdateBrowserAction K s t =
     (if (case getController s (activeTabId s) of
            Some activeCtrl \<Rightarrow> isActiveMode K (mode activeCtrl)
          | None \<Rightarrow> False)
      then False
      else (case getController s t of
              Some ctrl \<Rightarrow>
                if t \<noteq> currentTabId s \<and> isInactiveMode K (mode ctrl) then False else True
            | None \<Rightarrow> True))"

definition findActiveTabId :: "('m, 's, 'g, 'd) externals \<Rightarrow> ('m, 's) worker \<Rightarrow> tab_id" where
  "findActiveTabId K s =
     (let ctrl = getController s (currentTabId s) in
      if (case ctrl of Some c \<Rightarrow> isActiveMode K (mode c) | None \<Rightarrow> False)
      then currentTabId s
      else (case find (\<lambda>c. isActiveMode K (mode c)) (forInValues (tabControllers s)) of
              Some c \<Rightarrow> tabId c
            | None \<Rightarrow> if ctrl \<noteq> None then currentTabId s else TAB_ID_NONE))"

definition resetContextMenu :: "('m, 's) worker \<Rightarrow> ('m, 's) worker" where
  "resetContextMenu s = s\<lparr>contextMenu := []\<rparr>"

definition addContextMenuItem ::
  "('m, 's) worker \<Rightarrow> tab_id \<Rightarrow> string \<times> string \<Rightarrow> menu_action \<Rightarrow> ('m, 's) worker" where
  "addContextMenuItem s t itemTitle onClicked =
     s\<lparr>contextMenu :=
         contextMenu s @ [\<lparr>title = itemTitle, item_tab = t, action = onClicked\<rparr>]\<rparr>"

text \<open>
  \<^verbatim>\<open>addToggleConnectorMenu(tabId, ctrl)\<close> starts with \<^verbatim>\<open>ctrl.getConnector()\<close>: when
  \<^verbatim>\<open>ctrl\<close> is \<^verbatim>\<open>undefined\<close> this raises a TypeError.
\<close>

definition toggleItem :: "tab_id \<Rightarrow> ('m, 's) controller \<Rightarrow> menu_item" where
  "toggleItem t ctrl =
     \<lparr>title = (if isEnabled ctrl then ''menuDisableConnector'' else ''menuEnableConnector'',
               label (connector ctrl)),
      item_tab = t,
      action = ToggleConnector (CtrlRef (oid ctrl) (connector ctrl)) (\<not> isEnabled ctrl)\<rparr>"

definition disableUntilTabClosedItem :: "tab_id \<Rightarrow> ('m, 's) controller \<Rightarrow> menu_item" where
  "disableUntilTabClosedItem t ctrl =
     \<lparr>title = (''menuDisableUntilTabClosed'', label (connector ctrl)),
      item_tab = t,
      action = DisableUntilTabClosed (CtrlRef (oid ctrl) (connector ctrl))\<rparr>"

definition addToggleConnectorMenu ::
  "('m, 's) worker \<Rightarrow> tab_id \<Rightarrow> ('m, 's) controller option \<Rightarrow> ('m, 's, unit) result" where
  "addToggleConnectorMenu s t ctrl =
     (case ctrl of
        None \<Rightarrow> (Inl (TypeError ''Cannot read property getConnector of undefined''), s)
      | Some c \<Rightarrow>
          (Inr (), addContextMenuItem s t (title (toggleItem t c)) (action (toggleItem t c))))"

definition addDisableUntilTabClosedItem ::
  "('m, 's) worker \<Rightarrow> tab_id \<Rightarrow> ('m, 's) controller \<Rightarrow> ('m, 's) worker" where
  "addDisableUntilTabClosedItem s t ctrl =
     addContextMenuItem s t (title (disableUntilTabClosedItem t ctrl))
       (action (disableUntilTabClosedItem t ctrl))"

definition updateContextMenu :: "('m, 's) worker \<Rightarrow> tab_id \<Rightarrow> ('m, 's, unit) result" where
  "updateContextMenu s t =
     (let s1 = resetContextMenu s;
          ctrl = getController s1 t;
          activeCtrl = getController s1 (activeTabId s1);
          r = (case ctrl of
                 Some c \<Rightarrow>
                   (case addToggleConnectorMenu s1 t (Some c) of
                      (Inl e, s2) \<Rightarrow> (Inl e, s2)
                    | (Inr u, s2) \<Rightarrow>
                        (Inr (), if isEnabled c then addDisableUntilTabClosedItem s2 t c else s2))
               | None \<Rightarrow> (Inr (), s1))
      in case r of
           (Inl e, s3) \<Rightarrow> (Inl e, s3)
         | (Inr u, s3) \<Rightarrow>
             if activeTabId s3 \<noteq> t then
               (case (ctrl, activeCtrl) of
                  (Some c, Some a) \<Rightarrow>
                    if id_connector (connector a) = id_connector (connector c)
                    then (Inr (), s3)
                    else addToggleConnectorMenu s3 t activeCtrl
                | _ \<Rightarrow> addToggleConnectorMenu s3 t activeCtrl)
             else (Inr (), s3))"

definition updateLastActiveTab ::
  "('m, 's, 'g, 'd) externals \<Rightarrow> ('m, 's) worker \<Rightarrow> ('m, 's, unit) result" where
  "updateLastActiveTab K s =
     (let lastActiveTabId = findActiveTabId K s in
      if lastActiveTabId \<noteq> TAB_ID_NONE then
        (let s1 = s\<lparr>activeTabId := lastActiveTabId\<rparr>;
             s2 = updateBrowserAction s1 (activeTabId s1)
         in updateContextMenu s2 (activeTabId s2))
      else (Inr (), resetContextMenu (emit BrowserActionReset s)))"

definition setConnectorState ::
  "('m, 's) worker \<Rightarrow> ctrl_ref \<Rightarrow> bool \<Rightarrow> ('m, 's) worker" where
  "setConnectorState s ctrl b =
     (case ctrl of
        CtrlRef i conn \<Rightarrow>
          (let s1 = setEnabled i b s
           in s1\<lparr>connectorEnabled := (connectorEnabled s1)(conn := b)\<rparr>))"

text \<open>
  Modelled from the spec: the constructor of \<^verbatim>\<open>Controller\<close>, which is not in the source
  tree. \<^verbatim>\<open>new Controller(tabId, connector, isEnabled)\<close> keeps its three arguments (the
  worker reads them back as \<^verbatim>\<open>ctrl.tabId\<close>, \<^verbatim>\<open>ctrl.getConnector()\<close> and
  \<^verbatim>\<open>ctrl.isEnabled\<close>); its first mode and state are parameters. The callbacks set on the
  new object are the events of the controller (a change of mode is the event
  \<open>ModeChange\<close> below). \<open>createController\<close> is the piece of the method after
  \<^verbatim>\<open>await Options.isConnectorEnabled(connector)\<close>; nothing happens before it.
\<close>

definition createController ::
  "('m, 's, 'g, 'd) externals \<Rightarrow> ('m, 's) worker \<Rightarrow> tab_id \<Rightarrow> connector \<Rightarrow> ('m, 's) worker" where
  "createController K s t conn =
     (let enabled = connectorEnabled s conn;
          ctrl = \<lparr>tabId = t, connector = conn, isEnabled = enabled,
                  mode = initialMode K enabled, song = initialSong K, oid = nextOid s\<rparr>
      in s\<lparr>tabControllers := AList.update t ctrl (tabControllers s),
            nextOid := Suc (nextOid s)\<rparr>)"

definition unloadController :: "('m, 's) worker \<Rightarrow> tab_id \<Rightarrow> ('m, 's) worker" where
  "unloadController s t =
     (case getController s t of
        None \<Rightarrow> s
      | Some controller \<Rightarrow>
          (emit (ControllerFinish (oid controller)) s)
            \<lparr>tabControllers := AList.delete t (tabControllers s),
             unloaded := unloaded s @ [controller]\<rparr>)"

definition processControlleModeChange ::
  "('m, 's, 'g, 'd) externals \<Rightarrow> ('m, 's) worker \<Rightarrow> ('m, 's) controller \<Rightarrow> tab_id
     \<Rightarrow> ('m, 's, unit) result" where
  "processControlleModeChange K s ctrl t =
     (let isCtrlModeInactive = isInactiveMode K (mode ctrl);
          finish = (\<lambda>s'. if isCtrlModeInactive
                          then updateBrowserAction s' (currentTabId s')
                          else updateBrowserAction s' t)
      in if activeTabId s \<noteq> t then
           (if isCtrlModeInactive then (Inr (), s)
            else (let s1 = s\<lparr>activeTabId := t\<rparr>
                  in case updateContextMenu s1 (currentTabId s1) of
                       (Inl e, s2) \<Rightarrow> (Inl e, s2)
                     | (Inr u, s2) \<Rightarrow> (Inr (), finish s2)))
         else (Inr (), finish s))"

text \<open>
  \<^verbatim>\<open>tryToInjectConnector\<close>: \<open>res\<close> is what \<^verbatim>\<open>Inject.injectConnector(tabId, connector)\<close>
  resolved to, and the function is the piece from there to the next \<^verbatim>\<open>await\<close>. In the
  \<^verbatim>\<open>MATCHED\<close> case that is \<^verbatim>\<open>unloadController\<close> and the call of
  \<^verbatim>\<open>createController\<close>, which waits for the options: the table has no entry for the tab
  until the continuation runs.
\<close>

definition tryToInjectConnector ::
  "('m, 's, 'g, 'd) externals \<Rightarrow> ('m, 's) worker \<Rightarrow> tab_id \<Rightarrow> connector \<Rightarrow> inject_result
     \<Rightarrow> ('m, 's, unit) result" where
  "tryToInjectConnector K s t conn res =
     (case res of
        INJECTED \<Rightarrow> (Inr (), s)
      | NO_MATCH \<Rightarrow>
          (if getController s t \<noteq> None
           then updateLastActiveTab K (unloadController s t)
           else (Inr (), s))
      | MATCHED \<Rightarrow>
          (let s1 = unloadController s t
           in (Inr (), s1\<lparr>pending := pending s1 @ [AwaitIsConnectorEnabled t conn]\<rparr>)))"

text \<open>
  The rest of the \<^verbatim>\<open>MATCHED\<close> case, after \<^verbatim>\<open>await this.createController(...)\<close>.
  \<^verbatim>\<open>onConnectorActivated\<close> is the listener a subclass overrides; its call is recorded.
\<close>

definition tryToInjectConnector_matched ::
  "('m, 's, 'g, 'd) externals \<Rightarrow> ('m, 's) worker \<Rightarrow> tab_id \<Rightarrow> connector
     \<Rightarrow> ('m, 's, unit) result" where
  "tryToInjectConnector_matched K s t conn =
     (let s3 = (if shouldUpdateBrowserAction K s t then updateBrowserAction s t else s)
      in case updateContextMenu s3 t of
           (Inl e, s4) \<Rightarrow> (Inl e, s4)
         | (Inr u, s4) \<Rightarrow>
             (Inr (), emit (ConnectorActivated conn)
                        (emit (TabsSendMessage t ''EVENT_READY'') s4)))"

text \<open>
  The \<open>n\<close>-th waiting continuation goes on: \<^verbatim>\<open>createController\<close> stores the new
  controller and returns, which lets the \<^verbatim>\<open>MATCHED\<close> case go on in its turn.
\<close>

definition resume ::
  "('m, 's, 'g, 'd) externals \<Rightarrow> ('m, 's) worker \<Rightarrow> nat \<Rightarrow> ('m, 's, unit) result" where
  "resume K s n =
     (if n < length (pending s) then
        (let s1 = s\<lparr>pending := take n (pending s) @ drop (Suc n) (pending s)\<rparr>
         in case pending s ! n of
              AwaitIsConnectorEnabled t conn \<Rightarrow>
                (let s2 = createController K s1 t conn
                 in (Inr (), s2\<lparr>pending := pending s2 @ [AwaitCreateController t conn]\<rparr>))
            | AwaitCreateController t conn \<Rightarrow> tryToInjectConnector_matched K s1 t conn)
      else (Inr (), s))"

text \<open>
  The \<^verbatim>\<open>onclick\<close> closure built by \<^verbatim>\<open>addContextMenuItem\<close>, run on a click on the item.
\<close>

definition onclick ::
  "('m, 's, 'g, 'd) externals \<Rightarrow> ('m, 's) worker \<Rightarrow> menu_item \<Rightarrow> ('m, 's, unit) result" where
  "onclick K s item =
     (let s1 = (case action item of
                  ToggleConnector ctrl newState \<Rightarrow> setConnectorState s ctrl newState
                | DisableUntilTabClosed (CtrlRef i conn) \<Rightarrow> setEnabled i False s)
      in case updateContextMenu s1 (item_tab item) of
           (Inl e, s2) \<Rightarrow> (Inl e, s2)
         | (Inr u, s2) \<Rightarrow>
             (Inr (), if shouldUpdateBrowserAction K s2 (item_tab item)
                      then updateBrowserAction s2 (item_tab item) else s2))"

subsection \<open>Public methods\<close>

text \<open>
  \<^verbatim>\<open>processCommand\<close>. The class has no method \<^verbatim>\<open>setControllerState\<close> (the method that
  enables or disables a connector is \<^verbatim>\<open>setConnectorState\<close>), so
  \<^verbatim>\<open>this.setControllerState(...)\<close> calls \<^verbatim>\<open>undefined\<close> and raises a TypeError.
  \<open>key\<close> is the tab under which the controller was found.
\<close>

definition processCommand ::
  "('m, 's, 'g, 'd) externals \<Rightarrow> ('m, 's) worker \<Rightarrow> string \<Rightarrow> ('m, 's, unit) result" where
  "processCommand K s command =
     (let key = (if getController s (activeTabId s) \<noteq> None then activeTabId s
                 else currentTabId s)
      in case getController s key of
           None \<Rightarrow> (Inr (), s)
         | Some ctrl \<Rightarrow>
             if command = ''toggle-connector''
             then (Inl (TypeError ''this.setControllerState is not a function''), s)
             else if command = ''love-song'' \<or> command = ''unlove-song''
             then (let isLoved' = (command = ''love-song'')
                   in case toggleLove K (song ctrl) isLoved' of
                        (Inl e, g) \<Rightarrow> (Inl e, onSong key (\<lambda>x. g) s)
                      | (Inr u, g) \<Rightarrow>
                          (Inr (), emit (BrowserActionSongLoved isLoved')
                                     (onSong key (\<lambda>x. g) s)))
             else (Inr (), s))"

definition processMessage ::
  "('m, 's, 'g, 'd) externals \<Rightarrow> ('m, 's) worker \<Rightarrow> tab_id \<Rightarrow> string \<Rightarrow> 'd data
     \<Rightarrow> ('m, 's, 'g response) result" where
  "processMessage K s t type dat =
     (if type = ''REQUEST_ACTIVE_TABID'' then (Inr (RespTabId (activeTabId s)), s)
      else case getController s t of
             None \<Rightarrow> (Inr RespUndefined, emit (ConsoleWarn type t) s)
           | Some ctrl \<Rightarrow>
               if type = ''REQUEST_GET_SONG'' then
                 (case getCurrentSong K (song ctrl) of
                    None \<Rightarrow> (Inl (TypeError ''Cannot read property getCloneableData of null''), s)
                  | Some g \<Rightarrow> (Inr (RespSong g), s))
               else if type = ''REQUEST_CORRECT_SONG'' then
                 (Inr RespUndefined, onSong t (\<lambda>x. setUserSongData K x (payload dat)) s)
               else if type = ''REQUEST_TOGGLE_LOVE'' then
                 (case toggleLove K (song ctrl) (isLoved dat) of
                    (Inl e, g) \<Rightarrow> (Inl e, onSong t (\<lambda>x. g) s)
                  | (Inr u, g) \<Rightarrow> (Inr (RespBool (isLoved dat)), onSong t (\<lambda>x. g) s))
               else if type = ''REQUEST_SKIP_SONG'' then
                 (Inr RespUndefined, onSong t (skipCurrentSong K) s)
               else if type = ''REQUEST_RESET_SONG'' then
                 (Inr RespUndefined, onSong t (resetSongData K) s)
               else (Inr RespUndefined, s))"

text \<open>
  \<^verbatim>\<open>ctrl.mode = m\<close> on the controller object with identity \<open>i\<close>, wherever it is kept:
  in the table or among the unloaded controllers.
\<close>

definition setMode :: "nat \<Rightarrow> 'm \<Rightarrow> ('m, 's) worker \<Rightarrow> ('m, 's) worker" where
  "setMode i m s =
     s\<lparr>tabControllers :=
         map (\<lambda>(k, c). (k, if oid c = i then c\<lparr>mode := m\<rparr> else c)) (tabControllers s),
       unloaded := map (\<lambda>c. if oid c = i then c\<lparr>mode := m\<rparr> else c) (unloaded s)\<rparr>"

text \<open>
  The controller object \<open>ctrl\<close> sets its mode to \<open>m\<close> and calls \<^verbatim>\<open>onModeChanged\<close>,
  the closure \<^verbatim>\<open>() => this.processControlleModeChange(ctrl, tabId)\<close> of
  \<^verbatim>\<open>createController\<close>, where \<^verbatim>\<open>tabId\<close> is the tab the controller was constructed
  for. Neither the closure nor \<^verbatim>\<open>processControlleModeChange\<close> asks whether the
  controller is still in the table. \<open>reportModes\<close> does so for each mode of a list.
\<close>

definition modeChange ::
  "('m, 's, 'g, 'd) externals \<Rightarrow> ('m, 's) worker \<Rightarrow> ('m, 's) controller \<Rightarrow> 'm
     \<Rightarrow> ('m, 's, unit) result" where
  "modeChange K s ctrl m =
     processControlleModeChange K (setMode (oid ctrl) m s) (ctrl\<lparr>mode := m\<rparr>) (tabId ctrl)"

fun reportModes ::
  "('m, 's, 'g, 'd) externals \<Rightarrow> ('m, 's) worker \<Rightarrow> ('m, 's) controller \<Rightarrow> 'm list
     \<Rightarrow> ('m, 's, unit) result" where
  "reportModes K s ctrl [] = (Inr (), s)"
| "reportModes K s ctrl (m # ms) =
     (case modeChange K s ctrl m of
        (Inl e, s1) \<Rightarrow> (Inl e, s1)
      | (Inr u, s1) \<Rightarrow> reportModes K s1 ctrl ms)"

text \<open>
  \<^verbatim>\<open>processPortMessage\<close>: \<^verbatim>\<open>ctrl.onStateChanged(data)\<close> changes the controller's state
  and runs the callbacks of the mode changes it makes.
\<close>

definition processPortMessage ::
  "('m, 's, 'g, 'd) externals \<Rightarrow> ('m, 's) worker \<Rightarrow> tab_id \<Rightarrow> string \<Rightarrow> 'd data
     \<Rightarrow> ('m, 's, unit) result" where
  "processPortMessage K s t type dat =
     (if type = ''EVENT_STATE_CHANGED'' then
        (case getController s t of
           Some ctrl \<Rightarrow>
             (case onStateChanged K ctrl (payload dat) of
                (g, ms) \<Rightarrow> reportModes K (onSong t (\<lambda>x. g) s) ctrl ms)
         | None \<Rightarrow> (Inr (), s))
      else (Inr (), s))"

text \<open>
  \<^verbatim>\<open>processTabUpdate\<close>: \<open>conn\<close> is what \<^verbatim>\<open>getConnectorByUrl(url)\<close> resolved to. The
  promise of \<^verbatim>\<open>tryToInjectConnector\<close> is neither awaited nor returned, so its rejection
  does not reach the caller.
\<close>

definition processTabUpdate ::
  "('m, 's, 'g, 'd) externals \<Rightarrow> ('m, 's) worker \<Rightarrow> tab_id \<Rightarrow> connector \<Rightarrow> inject_result
     \<Rightarrow> ('m, 's, unit) result" where
  "processTabUpdate K s t conn res = (Inr (), snd (tryToInjectConnector K s t conn res))"

definition processTabChange ::
  "('m, 's, 'g, 'd) externals \<Rightarrow> ('m, 's) worker \<Rightarrow> tab_id \<Rightarrow> ('m, 's, unit) result" where
  "processTabChange K s t =
     (let s1 = s\<lparr>currentTabId := t\<rparr>;
          s2 = (if shouldUpdateBrowserAction K s1 t
                then (updateBrowserAction s1 t)\<lparr>activeTabId := t\<rparr>
                else s1)
      in updateContextMenu s2 t)"

definition processTabRemove ::
  "('m, 's, 'g, 'd) externals \<Rightarrow> ('m, 's) worker \<Rightarrow> tab_id \<Rightarrow> ('m, 's, unit) result" where
  "processTabRemove K s removedTabId =
     (let s1 = unloadController s removedTabId
      in if removedTabId = activeTabId s1
         then updateLastActiveTab K (s1\<lparr>activeTabId := TAB_ID_NONE\<rparr>)
         else (Inr (), s1))"

subsection \<open>Events and reachable states\<close>

text \<open>
  What can happen to a worker: the public methods, a continuation that goes on, a click
  on an item of the context menu, and a controller object, in the table or unloaded,
  that changes its mode and calls \<^verbatim>\<open>onModeChanged\<close>. \<open>ModeChange\<close> names the
  controller by its identity; \<open>controllers\<close> are the controller objects there are.
  \<open>exec\<close> gives the state a handler leaves behind, whether it returned or raised.
\<close>

datatype ('m, 'd) event =
  TabUpdate tab_id connector inject_result
  | Resume nat
  | TabChange tab_id
  | TabRemove tab_id
  | Command string
  | Message tab_id string "'d data"
  | PortMessage tab_id string "'d data"
  | ModeChange nat 'm
  | MenuClick nat

definition controllers :: "('m, 's) worker \<Rightarrow> ('m, 's) controller list" where
  "controllers s = map snd (tabControllers s) @ unloaded s"

definition controllerModeChange ::
  "('m, 's, 'g, 'd) externals \<Rightarrow> ('m, 's) worker \<Rightarrow> nat \<Rightarrow> 'm \<Rightarrow> ('m, 's, unit) result" where
  "controllerModeChange K s i m =
     (case find (\<lambda>c. oid c = i) (controllers s) of
        Some ctrl \<Rightarrow> modeChange K s ctrl m
      | None \<Rightarrow> (Inr (), s))"

definition menuClick ::
  "('m, 's, 'g, 'd) externals \<Rightarrow> ('m, 's) worker \<Rightarrow> nat \<Rightarrow> ('m, 's, unit) result" where
  "menuClick K s i =
     (if i < length (contextMenu s) then onclick K s (contextMenu s ! i) else (Inr (), s))"

fun exec ::
  "('m, 's, 'g, 'd) externals \<Rightarrow> ('m, 's) worker \<Rightarrow> ('m, 'd) event \<Rightarrow> ('m, 's) worker" where
  "exec K s (TabUpdate t conn res) = snd (processTabUpdate K s t conn res)"
| "exec K s (Resume n) = snd (resume K s n)"
| "exec K s (TabChange t) = snd (processTabChange K s t)"
| "exec K s (TabRemove t) = snd (processTabRemove K s t)"
| "exec K s (Command c) = snd (processCommand K s c)"
| "exec K s (Message t type dat) = snd (processMessage K s t type dat)"
| "exec K s (PortMessage t type dat) = snd (processPortMessage K s t type dat)"
| "exec K s (ModeChange i m) = snd (controllerModeChange K s i m)"
| "exec K s (MenuClick i) = snd (menuClick K s i)"

inductive reachable ::
  "('m, 's, 'g, 'd) externals \<Rightarrow> ('m, 's) worker \<Rightarrow> bool"
  for K :: "('m, 's, 'g, 'd) externals" where
  init: "reachable K (initialize currentTab opts)"
| step: "reachable K s \<Longrightarrow> reachable K (exec K s ev)"

subsection \<open>Properties of a worker state\<close>

text \<open>
  The table as \<^verbatim>\<open>createController\<close> and \<^verbatim>\<open>unloadController\<close> leave it: one entry
  per tab, and the controller under key \<open>k\<close> was constructed with \<^verbatim>\<open>tabId\<close> \<open>k\<close>.
\<close>

definition wf_worker :: "('m, 's) worker \<Rightarrow> bool" where
  "wf_worker s \<longleftrightarrow>
     distinct (map fst (tabControllers s))
     \<and> list_all (\<lambda>(k, c). tabId c = k) (tabControllers s)"


subsection \<open>A concrete controller class and concrete runs\<close>

text \<open>
  Two modes, one inactive and one active. The controller's own state is whether the song
  is loved; \<open>toggleLove\<close> resolves without changing it (a scrobbler that ignores the
  request). On a state reported by the page the controller starts playing.
\<close>

datatype demo_mode = Idle | Playing

definition demoExternals :: "(demo_mode, bool, bool, unit) externals" where
  "demoExternals =
     \<lparr>isActiveMode = (\<lambda>m. m = Playing),
      isInactiveMode = (\<lambda>m. m = Idle),
      initialMode = (\<lambda>enabled. Idle),
      initialSong = False,
      getCurrentSong = (\<lambda>g. Some g),
      toggleLove = (\<lambda>g b. (Inr (), g)),
      setUserSongData = (\<lambda>g d. g),
      skipCurrentSong = (\<lambda>g. g),
      resetSongData = (\<lambda>g. False),
      onStateChanged = (\<lambda>ctrl d. (song ctrl, [Playing]))\<rparr>"

definition demoConnector :: connector where
  "demoConnector = \<lparr>id_connector = ''youtube'', label = ''YouTube''\<rparr>"

definition demoController :: "tab_id \<Rightarrow> demo_mode \<Rightarrow> nat \<Rightarrow> (demo_mode, bool) controller" where
  "demoController t m i =
     \<lparr>tabId = t, connector = demoConnector, isEnabled = True, mode = m, song = False, oid = i\<rparr>"

text \<open>The worker starts on tab 5 with every connector enabled.\<close>

definition demoStart :: "(demo_mode, bool) worker" where
  "demoStart = initialize (Some 5) (\<lambda>c. True)"

text \<open>
  Tab 5 is selected, a connector matches it (both continuations of
  \<^verbatim>\<open>tryToInjectConnector\<close> go on at once), and its controller starts playing.
\<close>

definition demoPlaying :: "(demo_mode, bool) worker" where
  "demoPlaying =
     foldl (exec demoExternals) demoStart
       [TabChange 5, TabUpdate 5 demoConnector MATCHED, Resume 0, Resume 0,
        ModeChange 0 Playing]"

text \<open>The user then looks at tab 7, which has no connector.\<close>

definition demoBackground :: "(demo_mode, bool) worker" where
  "demoBackground = exec demoExternals demoPlaying (TabChange 7)"

text \<open>The controller of tab 5 then stops.\<close>

definition demoStale :: "(demo_mode, bool) worker" where
  "demoStale = exec demoExternals demoBackground (ModeChange 0 Idle)"

text \<open>From \<open>demoPlaying\<close>: the same connector also matches tab 6.\<close>

definition demoTwoTabs :: "(demo_mode, bool) worker" where
  "demoTwoTabs =
     foldl (exec demoExternals) demoPlaying
       [TabUpdate 6 demoConnector MATCHED, Resume 0, Resume 0]"

text \<open>From \<open>demoTwoTabs\<close>: the user then looks at tab 6.\<close>

definition demoSecondTab :: "(demo_mode, bool) worker" where
  "demoSecondTab = exec demoExternals demoTwoTabs (TabChange 6)"

section \<open>Lemmas\<close>

lemmas model_defs =
  getController_def emit_def onSong_def setEnabled_def initialize_def updateBrowserAction_def
  shouldUpdateBrowserAction_def findActiveTabId_def resetContextMenu_def addContextMenuItem_def
  toggleItem_def disableUntilTabClosedItem_def addToggleConnectorMenu_def
  addDisableUntilTabClosedItem_def updateContextMenu_def updateLastActiveTab_def
  setConnectorState_def createController_def unloadController_def
  processControlleModeChange_def tryToInjectConnector_def onclick_def processCommand_def
  processMessage_def processPortMessage_def processTabUpdate_def processTabChange_def
  processTabRemove_def modeChange_def menuClick_def TAB_ID_NONE_def
  tryToInjectConnector_matched_def resume_def setMode_def controllers_def
  controllerModeChange_def
  forInKeys_def forInValues_def isArrayIndex_def

lemmas demo_defs =
  demoExternals_def demoConnector_def demoController_def demoStart_def demoPlaying_def
  demoBackground_def demoStale_def demoTwoTabs_def demoSecondTab_def

subsection \<open>What each method leaves unchanged\<close>

lemma map_fst_map_entry: "map fst (AList.map_entry k f al) = map fst al"
  by (induction al) auto

lemma set_update_subset: "set (AList.update k v al) \<subseteq> insert (k, v) (set al)"
  by (induction al) auto

lemma set_delete_subset: "set (AList.delete k al) \<subseteq> set al"
  by (auto simp: AList.delete_eq)

lemma getController_emit [simp]: "getController (emit e s) = getController s"
  by (simp add: fun_eq_iff getController_def emit_def)

lemma emit_frame [simp]:
  "tabControllers (emit e s) = tabControllers s"
  "activeTabId (emit e s) = activeTabId s"
  "currentTabId (emit e s) = currentTabId s"
  by (simp_all add: emit_def)

lemma updateBrowserAction_frame [simp]:
  "tabControllers (updateBrowserAction s t) = tabControllers s"
  "activeTabId (updateBrowserAction s t) = activeTabId s"
  "currentTabId (updateBrowserAction s t) = currentTabId s"
  by (simp_all add: updateBrowserAction_def split: option.splits)

lemma resetContextMenu_frame [simp]:
  "tabControllers (resetContextMenu s) = tabControllers s"
  "activeTabId (resetContextMenu s) = activeTabId s"
  "currentTabId (resetContextMenu s) = currentTabId s"
  by (simp_all add: resetContextMenu_def)

lemma updateContextMenu_frame [simp]:
  "tabControllers (snd (updateContextMenu s t)) = tabControllers s"
  "activeTabId (snd (updateContextMenu s t)) = activeTabId s"
  "currentTabId (snd (updateContextMenu s t)) = currentTabId s"
  by (auto simp: updateContextMenu_def resetContextMenu_def addToggleConnectorMenu_def
      addDisableUntilTabClosedItem_def addContextMenuItem_def getController_def Let_def
      split: option.splits prod.splits sum.splits)

lemma updateLastActiveTab_frame [simp]:
  "tabControllers (snd (updateLastActiveTab K s)) = tabControllers s"
  "currentTabId (snd (updateLastActiveTab K s)) = currentTabId s"
  by (simp_all add: updateLastActiveTab_def Let_def)

lemma updateLastActiveTab_active:
  "activeTabId (snd (updateLastActiveTab K s)) =
     (if findActiveTabId K s \<noteq> TAB_ID_NONE then findActiveTabId K s else activeTabId s)"
  by (simp add: updateLastActiveTab_def Let_def)

lemma unloadController_frame [simp]:
  "tabControllers (unloadController s t) = AList.delete t (tabControllers s)"
  "activeTabId (unloadController s t) = activeTabId s"
  "currentTabId (unloadController s t) = currentTabId s"
  by (auto simp: unloadController_def getController_def AList.delete_id map_of_eq_None_iff
      split: option.splits)

lemma createController_frame [simp]:
  "activeTabId (createController K s t conn) = activeTabId s"
  "currentTabId (createController K s t conn) = currentTabId s"
  by (simp_all add: createController_def Let_def)

subsection \<open>The table stays well formed\<close>

lemma wf_tabControllers_cong:
  "tabControllers s' = tabControllers s \<Longrightarrow> wf_worker s' = wf_worker s"
  by (simp add: wf_worker_def)

lemma wf_delete:
  "wf_worker s \<Longrightarrow> tabControllers s' = AList.delete t (tabControllers s) \<Longrightarrow> wf_worker s'"
  using set_delete_subset[of t "tabControllers s"]
  by (auto simp: wf_worker_def AList.distinct_delete list_all_iff)

lemma wf_createController: "wf_worker s \<Longrightarrow> wf_worker (createController K s t conn)"
  using set_update_subset[of t _ "tabControllers s"]
  by (fastforce simp: wf_worker_def createController_def Let_def AList.distinct_update list_all_iff)

lemma list_all_map_entry:
  "list_all (\<lambda>(k, c). P k c) al \<Longrightarrow> (\<And>k c. P k c \<Longrightarrow> P k (f c))
     \<Longrightarrow> list_all (\<lambda>(k, c). P k c) (AList.map_entry k0 f al)"
  by (induction al) auto

lemma wf_onSong: "wf_worker s \<Longrightarrow> wf_worker (onSong t f s)"
  by (auto simp: wf_worker_def onSong_def map_fst_map_entry intro!: list_all_map_entry)

lemma wf_setMode: "wf_worker s \<Longrightarrow> wf_worker (setMode i m s)"
  by (auto simp: wf_worker_def setMode_def list_all_iff comp_def case_prod_beta)

lemma wf_setEnabled: "wf_worker s \<Longrightarrow> wf_worker (setEnabled i b s)"
  by (auto simp: wf_worker_def setEnabled_def list_all_iff comp_def case_prod_beta)

lemma wf_initialize: "wf_worker (initialize currentTab opts)"
  by (simp add: wf_worker_def initialize_def)

lemma wf_processTabChange: "wf_worker s \<Longrightarrow> wf_worker (snd (processTabChange K s t))"
  by (simp add: processTabChange_def Let_def wf_worker_def)

lemma wf_processTabRemove: "wf_worker s \<Longrightarrow> wf_worker (snd (processTabRemove K s t))"
  by (auto simp: processTabRemove_def Let_def elim!: wf_delete)

lemma wf_tryToInjectConnector:
  "wf_worker s \<Longrightarrow> wf_worker (snd (tryToInjectConnector K s t conn res))"
  by (cases res) (auto simp: tryToInjectConnector_def Let_def elim!: wf_delete)

lemma wf_tryToInjectConnector_matched:
  "wf_worker s \<Longrightarrow> wf_worker (snd (tryToInjectConnector_matched K s t conn))"
  by (simp add: tryToInjectConnector_matched_def Let_def wf_worker_def case_prod_beta
      sum.case_eq_if)

lemma wf_resume: "wf_worker s \<Longrightarrow> wf_worker (snd (resume K s n))"
proof (cases "n < length (pending s)")
  case False
  assume "wf_worker s"
  with False show ?thesis by (simp add: resume_def)
next
  case True
  let ?s1 = "s\<lparr>pending := take n (pending s) @ drop (Suc n) (pending s)\<rparr>"
  assume "wf_worker s"
  then have wf1: "wf_worker ?s1"
    by (simp add: wf_worker_def)
  show ?thesis
  proof (cases "pending s ! n")
    case (AwaitIsConnectorEnabled t conn)
    from wf1 have "wf_worker (createController K ?s1 t conn)"
      by (rule wf_createController)
    with True AwaitIsConnectorEnabled show ?thesis
      by (simp add: resume_def Let_def wf_worker_def)
  next
    case (AwaitCreateController t conn)
    from wf1 have "wf_worker (snd (tryToInjectConnector_matched K ?s1 t conn))"
      by (rule wf_tryToInjectConnector_matched)
    with True AwaitCreateController show ?thesis
      by (simp add: resume_def Let_def)
  qed
qed

lemma wf_processCommand: "wf_worker s \<Longrightarrow> wf_worker (snd (processCommand K s c))"
  by (auto simp: processCommand_def Let_def case_prod_beta sum.case_eq_if wf_onSong
      wf_tabControllers_cong[of "emit e s" s for e s] split: option.splits)

lemma wf_processMessage: "wf_worker s \<Longrightarrow> wf_worker (snd (processMessage K s t type dat))"
  by (auto simp: processMessage_def Let_def case_prod_beta sum.case_eq_if wf_onSong
      wf_tabControllers_cong[of "emit e s" s for e s] split: option.splits)

lemma processControlleModeChange_frame [simp]:
  "tabControllers (snd (processControlleModeChange K s c t)) = tabControllers s"
  "currentTabId (snd (processControlleModeChange K s c t)) = currentTabId s"
  by (simp_all add: processControlleModeChange_def Let_def case_prod_beta sum.case_eq_if)

lemma wf_modeChange: "wf_worker s \<Longrightarrow> wf_worker (snd (modeChange K s ctrl m))"
  by (simp add: modeChange_def wf_setMode
      wf_tabControllers_cong[of "snd (processControlleModeChange K s c t)" s for s c t])

lemma wf_controllerModeChange:
  "wf_worker s \<Longrightarrow> wf_worker (snd (controllerModeChange K s i m))"
  by (simp add: controllerModeChange_def wf_modeChange split: option.splits)

lemma wf_reportModes: "wf_worker s \<Longrightarrow> wf_worker (snd (reportModes K s ctrl ms))"
proof (induction ms arbitrary: s)
  case Nil
  then show ?case by simp
next
  case (Cons m ms)
  from Cons.prems have "wf_worker (snd (modeChange K s ctrl m))"
    by (rule wf_modeChange)
  then have "wf_worker (snd (reportModes K (snd (modeChange K s ctrl m)) ctrl ms))"
    by (rule Cons.IH)
  with Cons.prems show ?case
    by (simp add: case_prod_beta sum.case_eq_if wf_modeChange)
qed

lemma wf_processPortMessage:
  "wf_worker s \<Longrightarrow> wf_worker (snd (processPortMessage K s t type dat))"
  by (auto simp: processPortMessage_def wf_onSong wf_reportModes case_prod_beta
      split: option.splits)

lemma onclick_tabControllers:
  "wf_worker s \<Longrightarrow> wf_worker (snd (onclick K s item))"
  by (auto simp: onclick_def Let_def case_prod_beta sum.case_eq_if setConnectorState_def
      wf_tabControllers_cong[of "snd (updateContextMenu s t)" s for s t]
      wf_tabControllers_cong[of "updateBrowserAction s t" s for s t]
      wf_tabControllers_cong[of "s\<lparr>connectorEnabled := x\<rparr>" s for s x]
      wf_setEnabled split: menu_action.splits ctrl_ref.splits)

lemma wf_exec: "wf_worker s \<Longrightarrow> wf_worker (exec K s ev)"
  by (cases ev)
     (simp_all add: wf_processTabChange wf_processTabRemove wf_tryToInjectConnector
        wf_processCommand wf_processMessage wf_processPortMessage wf_controllerModeChange
        wf_resume
        onclick_tabControllers processTabUpdate_def menuClick_def)

lemma reachable_wf: "reachable K s \<Longrightarrow> wf_worker s"
  by (induction rule: reachable.induct) (simp_all add: wf_initialize wf_exec)

subsection \<open>The election\<close>

lemma set_forInKeys: "set (forInKeys al) = fst ` set al"
  by (auto simp: forInKeys_def)

lemma set_map_filter: "set (List.map_filter f xs) = {y. \<exists>x\<in>set xs. f x = Some y}"
  by (induction xs) (auto split: option.splits)

lemma set_forInValues: "set (forInValues al) = ran (map_of al)"
proof -
  have "\<exists>e\<in>set al. map_of al (fst e) = Some c" if "map_of al k = Some c" for k c
    using that map_of_SomeD[OF that] by (intro bexI[where x = "(k, c)"]) simp_all
  then show ?thesis
    by (auto simp: forInValues_def set_map_filter set_forInKeys ran_def)
qed

lemma findActiveTabId_cong:
  assumes "tabControllers s' = tabControllers s" and "currentTabId s' = currentTabId s"
  shows "findActiveTabId K s' = findActiveTabId K s"
  unfolding findActiveTabId_def getController_def assms ..

lemma keyed_lookup: "wf_worker s \<Longrightarrow> getController s k = Some c \<Longrightarrow> tabId c = k"
  by (auto simp: wf_worker_def getController_def list_all_iff dest!: map_of_SomeD)

lemma findActiveTabId_cases:
  assumes "wf_worker s"
  shows "findActiveTabId K s = TAB_ID_NONE \<or> getController s (findActiveTabId K s) \<noteq> None"
proof (cases "find (\<lambda>c. isActiveMode K (mode c)) (forInValues (tabControllers s))")
  case None
  then show ?thesis
    by (auto simp: findActiveTabId_def Let_def split: option.splits)
next
  case (Some c)
  then have "c \<in> set (forInValues (tabControllers s))"
    by (auto simp: find_Some_iff)
  then obtain k where "getController s k = Some c"
    by (auto simp: set_forInValues ran_def getController_def)
  with assms have "getController s (tabId c) = Some c"
    by (simp add: keyed_lookup)
  with Some show ?thesis
    by (auto simp: findActiveTabId_def Let_def split: option.splits)
qed

subsection \<open>Callbacks of a controller\<close>

lemma onSong_frame [simp]:
  "map fst (tabControllers (onSong t f s)) = map fst (tabControllers s)"
  "activeTabId (onSong t f s) = activeTabId s"
  "currentTabId (onSong t f s) = currentTabId s"
  by (simp_all add: onSong_def map_fst_map_entry)

lemma processControlleModeChange_active:
  "activeTabId (snd (processControlleModeChange K s c t)) = activeTabId s
   \<or> activeTabId (snd (processControlleModeChange K s c t)) = t"
  by (simp add: processControlleModeChange_def Let_def case_prod_beta sum.case_eq_if)

lemma map_fst_setEnabled [simp]:
  "map fst (tabControllers (setEnabled i b s)) = map fst (tabControllers s)"
  by (simp add: setEnabled_def comp_def case_prod_beta)

lemma setEnabled_frame [simp]:
  "activeTabId (setEnabled i b s) = activeTabId s"
  "currentTabId (setEnabled i b s) = currentTabId s"
  by (simp_all add: setEnabled_def)

lemma setMode_frame [simp]:
  "map fst (tabControllers (setMode i m s)) = map fst (tabControllers s)"
  "activeTabId (setMode i m s) = activeTabId s"
  "currentTabId (setMode i m s) = currentTabId s"
  by (simp_all add: setMode_def comp_def case_prod_beta)

lemma modeChange_frame [simp]:
  "map fst (tabControllers (snd (modeChange K s ctrl m))) = map fst (tabControllers s)"
  "currentTabId (snd (modeChange K s ctrl m)) = currentTabId s"
  by (simp_all add: modeChange_def)

lemma modeChange_active:
  "activeTabId (snd (modeChange K s ctrl m)) = activeTabId s
   \<or> activeTabId (snd (modeChange K s ctrl m)) = tabId ctrl"
  using processControlleModeChange_active[of K "setMode (oid ctrl) m s" "ctrl\<lparr>mode := m\<rparr>"
      "tabId ctrl"]
  by (simp add: modeChange_def)

lemma modeChange_inactive:
  "isInactiveMode K m \<Longrightarrow> activeTabId (snd (modeChange K s ctrl m)) = activeTabId s"
  by (simp add: modeChange_def processControlleModeChange_def Let_def)

lemma reportModes_frame [simp]:
  "map fst (tabControllers (snd (reportModes K s ctrl ms))) = map fst (tabControllers s)"
  "currentTabId (snd (reportModes K s ctrl ms)) = currentTabId s"
  by (induction ms arbitrary: s) (simp_all add: case_prod_beta sum.case_eq_if)

lemma reportModes_active:
  "activeTabId (snd (reportModes K s ctrl ms)) = activeTabId s
   \<or> activeTabId (snd (reportModes K s ctrl ms)) = tabId ctrl"
proof (induction ms arbitrary: s)
  case Nil
  show ?case by simp
next
  case (Cons m ms)
  from Cons.IH[of "snd (modeChange K s ctrl m)"] modeChange_active[of K s ctrl m]
  show ?case
    by (auto simp: case_prod_beta sum.case_eq_if)
qed

lemma reportModes_inactive:
  "list_all (isInactiveMode K) ms
     \<Longrightarrow> activeTabId (snd (reportModes K s ctrl ms)) = activeTabId s"
  by (induction ms arbitrary: s)
     (simp_all add: case_prod_beta sum.case_eq_if modeChange_inactive)

subsection \<open>Where the invariant of the active tab is established\<close>






subsection \<open>When a method returns\<close>

lemma updateContextMenu_returns:
  "activeTabId s = t \<or> getController s (activeTabId s) \<noteq> None
     \<Longrightarrow> fst (updateContextMenu s t) = Inr ()"
  by (auto simp: updateContextMenu_def resetContextMenu_def addToggleConnectorMenu_def
      addDisableUntilTabClosedItem_def addContextMenuItem_def getController_def Let_def
      split: option.splits)

lemma processTabChange_returns: "fst (processTabChange K s t) = Inr ()"
  by (auto simp: processTabChange_def Let_def shouldUpdateBrowserAction_def
      updateBrowserAction_def emit_def getController_def
      intro!: updateContextMenu_returns split: option.splits if_splits)


lemma processCommand_toggle_connector_TypeError:
  assumes "getController s (activeTabId s) \<noteq> None \<or> getController s (currentTabId s) \<noteq> None"
  shows "processCommand K s ''toggle-connector''
    = (Inl (TypeError ''this.setControllerState is not a function''), s)"
  using assms by (auto simp: processCommand_def Let_def split: option.splits)

subsection \<open>The concrete runs\<close>

lemma demoPlaying_eq:
  "demoPlaying =
     \<lparr>currentTabId = 5, activeTabId = 5,
      tabControllers = [(5, demoController 5 Playing 0)],
      contextMenu = [toggleItem 5 (demoController 5 Playing 0),
                     disableUntilTabClosedItem 5 (demoController 5 Playing 0)],
      connectorEnabled = (\<lambda>c. True),
      effects = [BrowserActionReset, BrowserActionReset, BrowserActionUpdate 5,
                 TabsSendMessage 5 ''EVENT_READY'', ConnectorActivated demoConnector,
                 BrowserActionUpdate 5],
      nextOid = 1,
      unloaded = [],
      pending = []\<rparr>"
  by (simp add: demo_defs model_defs)

lemma demoBackground_eq:
  "demoBackground =
     demoPlaying\<lparr>currentTabId := 7, contextMenu := [toggleItem 7 (demoController 5 Playing 0)]\<rparr>"
  by (simp add: demoBackground_def demoPlaying_eq)
     (simp add: demoExternals_def demoConnector_def demoController_def model_defs)


lemma demoTwoTabs_eq:
  "demoTwoTabs =
     demoPlaying
       \<lparr>tabControllers := [(5, demoController 5 Playing 0), (6, demoController 6 Idle 1)],
        contextMenu := [toggleItem 6 (demoController 6 Idle 1),
                        disableUntilTabClosedItem 6 (demoController 6 Idle 1)],
        effects := effects demoPlaying
                     @ [TabsSendMessage 6 ''EVENT_READY'', ConnectorActivated demoConnector],
        nextOid := 2\<rparr>"
  by (simp add: demoTwoTabs_def demoPlaying_eq)
     (simp add: demoExternals_def demoConnector_def demoController_def model_defs)

lemma demoSecondTab_eq:
  "demoSecondTab = demoTwoTabs\<lparr>currentTabId := 6\<rparr>"
  by (simp add: demoSecondTab_def demoTwoTabs_eq demoPlaying_eq)
     (simp add: demoExternals_def demoConnector_def demoController_def model_defs)

lemma reachable_foldl: "reachable K s \<Longrightarrow> reachable K (foldl (exec K) s evs)"
  by (induction evs arbitrary: s) (auto intro: reachable.step)

lemma reachable_demoPlaying: "reachable demoExternals demoPlaying"
  unfolding demoPlaying_def demoStart_def by (intro reachable_foldl reachable.init)

lemma reachable_demoTwoTabs: "reachable demoExternals demoTwoTabs"
  unfolding demoTwoTabs_def by (intro reachable_foldl reachable_demoPlaying)

text \<open>
  A connector that matches the worker's first tab before any tab was selected: the
  active tab is still \<^verbatim>\<open>TAB_ID_NONE\<close>, and after the controller is created
  \<^verbatim>\<open>updateContextMenu\<close> passes the missing controller of the active tab to
  \<^verbatim>\<open>addToggleConnectorMenu\<close>.
\<close>

lemma tryToInjectConnector_matched_raises:
  "fst (tryToInjectConnector_matched demoExternals
          (createController demoExternals demoStart 5 demoConnector) 5 demoConnector)
     = Inl (TypeError ''Cannot read property getConnector of undefined'')"
  by (simp add: demoStart_def demoExternals_def demoConnector_def model_defs)

text \<open>
  While \<^verbatim>\<open>tryToInjectConnector\<close> waits for the options after a reload of the active tab
  5, with the user on tab 7, the active tab has no controller.
\<close>

lemma matched_unloads_before_it_creates:
  "activeTabId (exec demoExternals demoBackground (TabUpdate 5 demoConnector MATCHED)) = 5
   \<and> currentTabId (exec demoExternals demoBackground (TabUpdate 5 demoConnector MATCHED)) = 7
   \<and> tabControllers (exec demoExternals demoBackground (TabUpdate 5 demoConnector MATCHED)) = []"
  by (simp add: demoBackground_eq demoPlaying_eq)
     (simp add: demoExternals_def demoConnector_def demoController_def model_defs)

text \<open>
  Tab 5 is closed while the user looks at tab 6, and tab 6 becomes the active tab. The
  unloaded controller of tab 5 then reports that it plays: \<^verbatim>\<open>processControlleModeChange\<close>
  makes tab 5 the active tab again, and raises when it rebuilds the menu for the
  controller that tab 5 no longer has.
\<close>

lemma unloaded_controller_calls_back:
  "activeTabId (exec demoExternals demoSecondTab (TabRemove 5)) = 6
   \<and> unloaded (exec demoExternals demoSecondTab (TabRemove 5)) = [demoController 5 Playing 0]
   \<and> activeTabId (foldl (exec demoExternals) demoSecondTab [TabRemove 5, ModeChange 0 Playing])
       = 5
   \<and> getController
        (foldl (exec demoExternals) demoSecondTab [TabRemove 5, ModeChange 0 Playing]) 5 = None
   \<and> fst (controllerModeChange demoExternals (exec demoExternals demoSecondTab (TabRemove 5))
          0 Playing)
       = Inl (TypeError ''Cannot read property getConnector of undefined'')"
  by (simp add: demoSecondTab_eq demoTwoTabs_eq demoPlaying_eq)
     (simp add: demoExternals_def demoConnector_def demoController_def model_defs)

text \<open>
  The connector of the active tab 5 stops matching while the user looks at tab 7: the
  controller is unloaded, the election finds no tab, and \<^verbatim>\<open>activeTabId\<close> is still 5.
\<close>

lemma noMatch_on_active_tab_keeps_activeTabId:
  "activeTabId (exec demoExternals demoBackground (TabUpdate 5 demoConnector NO_MATCH)) = 5
   \<and> currentTabId (exec demoExternals demoBackground (TabUpdate 5 demoConnector NO_MATCH)) = 7
   \<and> tabControllers (exec demoExternals demoBackground (TabUpdate 5 demoConnector NO_MATCH)) = []"
  by (simp add: demoBackground_eq demoPlaying_eq)
     (simp add: demoExternals_def demoConnector_def demoController_def model_defs)

section \<open>The claims\<close>




text \<open>
  C2: no public method raises; in particular \<^verbatim>\<open>processCommand('toggle-connector')\<close>
  returns when a controller is found. The code does not: with the controller of tab 5
  as the target, the command calls the method \<^verbatim>\<open>setControllerState\<close>, which the class
  does not have, and the promise of \<^verbatim>\<open>processCommand\<close> is rejected with a TypeError.
\<close>

theorem processCommand_toggle_connector_raises:
  "fst (processCommand demoExternals demoPlaying ''toggle-connector'')
     = Inl (TypeError ''this.setControllerState is not a function'')"
  by (simp add: processCommand_def demoPlaying_eq getController_def)

text \<open>
  C3: \<^verbatim>\<open>processCommand('toggle-connector')\<close> flips the enabled flag of the controller
  it finds and stores the new value in the options. The code does neither: the
  controller of tab 5 is enabled before the command, and after it the worker is exactly
  as before, the controller still enabled and the stored option still true.
\<close>

theorem processCommand_toggle_connector_leaves_flag:
  "getController demoPlaying (activeTabId demoPlaying) = Some (demoController 5 Playing 0)
   \<and> isEnabled (demoController 5 Playing 0)
   \<and> snd (processCommand demoExternals demoPlaying ''toggle-connector'') = demoPlaying
   \<and> connectorEnabled (snd (processCommand demoExternals demoPlaying ''toggle-connector''))
        demoConnector"
  by (simp add: processCommand_def demoPlaying_eq getController_def demoController_def)

text \<open>
  C4: in a reachable state, after \<^verbatim>\<open>processTabRemove(t)\<close> the table has no controller
  for \<open>t\<close>; and if \<open>t\<close> was the active tab, the active tab is now what
  \<^verbatim>\<open>findActiveTabId\<close> elects among the controllers that remain, which is never the
  removed tab (for \<open>t\<close> a tab, not \<^verbatim>\<open>TAB_ID_NONE\<close>).
\<close>

theorem processTabRemove_reelects:
  assumes "reachable K s"
  shows "getController (snd (processTabRemove K s t)) t = None
    \<and> (t = activeTabId s \<longrightarrow>
         activeTabId (snd (processTabRemove K s t)) = findActiveTabId K (unloadController s t)
         \<and> (t \<noteq> TAB_ID_NONE \<longrightarrow> activeTabId (snd (processTabRemove K s t)) \<noteq> t))"
proof -
  let ?s1 = "unloadController s t"
  have wf1: "wf_worker ?s1"
    using reachable_wf[OF assms] by (rule wf_delete) simp
  have gone: "getController ?s1 t = None"
    by (simp add: getController_def AList.delete_conv)
  have 1: "getController (snd (processTabRemove K s t)) t = None"
    by (simp add: processTabRemove_def Let_def getController_def AList.delete_conv)
  have elect: "findActiveTabId K (?s1\<lparr>activeTabId := TAB_ID_NONE\<rparr>) = findActiveTabId K ?s1"
    by (rule findActiveTabId_cong) simp_all
  have 2: "activeTabId (snd (processTabRemove K s t)) = findActiveTabId K ?s1"
    if "t = activeTabId s"
    using that elect by (simp add: processTabRemove_def Let_def updateLastActiveTab_active)
  have 3: "findActiveTabId K ?s1 \<noteq> t" if "t \<noteq> TAB_ID_NONE"
    using findActiveTabId_cases[OF wf1, of K] gone that by auto
  from 1 2 3 show ?thesis by auto
qed

theorem processTabRemove_reelects_witness:
  "reachable demoExternals demoSecondTab
   \<and> activeTabId demoSecondTab = 5
   \<and> getController (snd (processTabRemove demoExternals demoSecondTab 5)) 5 = None
   \<and> findActiveTabId demoExternals (unloadController demoSecondTab 5) = 6
   \<and> activeTabId (snd (processTabRemove demoExternals demoSecondTab 5)) = 6"
proof -
  have r: "reachable demoExternals demoSecondTab"
    unfolding demoSecondTab_def by (intro reachable.step reachable_demoTwoTabs)
  have a: "activeTabId demoSecondTab = 5"
    by (simp add: demoSecondTab_eq demoTwoTabs_eq demoPlaying_eq)
  have e: "findActiveTabId demoExternals (unloadController demoSecondTab 5) = 6"
    by (simp add: demoSecondTab_eq demoTwoTabs_eq demoPlaying_eq demoController_def
        demoExternals_def model_defs)
  from processTabRemove_reelects[OF r, of 5] r a e show ?thesis
    by simp
qed

text \<open>
  C5: tab \<open>A\<close> is the active tab and its controller is in an active mode, tab \<open>B\<close> is
  another tab and has no controller. Then \<^verbatim>\<open>processTabChange(B)\<close> makes \<open>B\<close> the
  current tab, \<^verbatim>\<open>shouldUpdateBrowserAction(B)\<close> is false so the active tab stays \<open>A\<close>,
  and the context menu is rebuilt as the one toggle item for the controller of \<open>A\<close>,
  created for tab \<open>B\<close>. Nothing else changes.
\<close>

theorem processTabChange_sticky:
  assumes "getController s A = Some a" and "isActiveMode K (mode a)" and "activeTabId s = A"
    and "B \<noteq> A" and "getController s B = None"
  shows "shouldUpdateBrowserAction K (s\<lparr>currentTabId := B\<rparr>) B = False
    \<and> processTabChange K s B
        = (Inr (), s\<lparr>currentTabId := B, contextMenu := [toggleItem B a]\<rparr>)"
  using assms
  by (auto simp: processTabChange_def shouldUpdateBrowserAction_def getController_def
      updateContextMenu_def resetContextMenu_def addToggleConnectorMenu_def
      addContextMenuItem_def toggleItem_def Let_def)

theorem processTabChange_sticky_witness:
  "getController demoPlaying 5 = Some (demoController 5 Playing 0)
   \<and> isActiveMode demoExternals (mode (demoController 5 Playing 0))
   \<and> activeTabId demoPlaying = 5
   \<and> getController demoPlaying 7 = None
   \<and> processTabChange demoExternals demoPlaying 7
       = (Inr (), demoPlaying\<lparr>currentTabId := 7,
                    contextMenu := [toggleItem 7 (demoController 5 Playing 0)]\<rparr>)
   \<and> activeTabId (snd (processTabChange demoExternals demoPlaying 7)) = 5"
proof -
  have h1: "getController demoPlaying 5 = Some (demoController 5 Playing 0)"
    by (simp add: demoPlaying_eq getController_def)
  have h2: "isActiveMode demoExternals (mode (demoController 5 Playing 0))"
    by (simp add: demoExternals_def demoController_def)
  have h3: "activeTabId demoPlaying = 5"
    by (simp add: demoPlaying_eq)
  have h4: "(7::tab_id) \<noteq> 5"
    by simp
  have h5: "getController demoPlaying 7 = None"
    by (simp add: demoPlaying_eq getController_def)
  from processTabChange_sticky[OF h1 h2 h3 h4 h5] h1 h2 h3 h5 show ?thesis
    by simp
qed

text \<open>
  C6: when exactly one entry of a well-formed table, the one under key \<open>k\<close>, holds a
  controller in an active mode, \<^verbatim>\<open>findActiveTabId\<close> returns \<open>k\<close>, the tab id of that
  controller, whatever the current tab is.
\<close>

theorem findActiveTabId_single_active:
  assumes wf: "wf_worker s"
    and one: "filter (\<lambda>(k, c). isActiveMode K (mode c)) (tabControllers s) = [(k, c)]"
  shows "findActiveTabId K (s\<lparr>currentTabId := cur\<rparr>) = k \<and> tabId c = k"
proof -
  let ?al = "tabControllers s"
  let ?P = "\<lambda>c. isActiveMode K (mode c)"
  have "set (filter (\<lambda>(k, c). ?P c) ?al) = {(k, c)}"
    by (simp add: one)
  then have mem: "(k, c) \<in> set ?al" and act: "?P c"
    and uniq: "\<And>k' c'. (k', c') \<in> set ?al \<Longrightarrow> ?P c' \<Longrightarrow> k' = k \<and> c' = c"
    by auto
  from wf mem have look: "map_of ?al k = Some c"
    by (simp add: wf_worker_def)
  with wf have key: "tabId c = k"
    by (simp add: keyed_lookup getController_def)
  have only: "\<And>k' c'. map_of ?al k' = Some c' \<Longrightarrow> ?P c' \<Longrightarrow> k' = k \<and> c' = c"
    using uniq by (blast dest: map_of_SomeD)
  show ?thesis
  proof (cases "case map_of ?al cur of Some c' \<Rightarrow> ?P c' | None \<Rightarrow> False")
    case True
    then obtain c' where "map_of ?al cur = Some c'" and "?P c'"
      by (auto split: option.splits)
    with only have "cur = k" by blast
    with True key show ?thesis
      by (simp add: findActiveTabId_def getController_def)
  next
    case False
    have "c \<in> set (forInValues ?al)"
      using look by (auto simp: set_forInValues ran_def)
    with act obtain c' where f: "find ?P (forInValues ?al) = Some c'"
      by (cases "find ?P (forInValues ?al)") (auto simp: find_None_iff)
    then have "?P c'" and "c' \<in> set (forInValues ?al)"
      by (auto simp: find_Some_iff)
    then have "c' = c"
      using only by (auto simp: set_forInValues ran_def)
    with False f key show ?thesis
      by (simp add: findActiveTabId_def getController_def)
  qed
qed

theorem findActiveTabId_single_active_witness:
  "wf_worker demoTwoTabs
   \<and> filter (\<lambda>(k, c). isActiveMode demoExternals (mode c)) (tabControllers demoTwoTabs)
       = [(5, demoController 5 Playing 0)]
   \<and> findActiveTabId demoExternals (demoTwoTabs\<lparr>currentTabId := 6\<rparr>) = 5
   \<and> findActiveTabId demoExternals (demoTwoTabs\<lparr>currentTabId := 9\<rparr>) = 5"
proof -
  have h1: "wf_worker demoTwoTabs"
    by (simp add: demoTwoTabs_eq demoPlaying_eq wf_worker_def demoController_def)
  have h2: "filter (\<lambda>(k, c). isActiveMode demoExternals (mode c)) (tabControllers demoTwoTabs)
      = [(5, demoController 5 Playing 0)]"
    by (simp add: demoTwoTabs_eq demoPlaying_eq demoController_def demoExternals_def)
  from findActiveTabId_single_active[OF h1 h2, of 6]
    findActiveTabId_single_active[OF h1 h2, of 9] h1 h2
  show ?thesis by simp
qed

text \<open>
  C7: when tab \<open>t\<close> is not the active tab, both have a controller and the two
  connectors have the same id, \<^verbatim>\<open>updateContextMenu(t)\<close> builds the toggle item of the
  controller of \<open>t\<close>, followed by the disable-until-closed item when that controller is
  enabled, and no item for the active tab.
\<close>

theorem updateContextMenu_dedup:
  assumes "t \<noteq> activeTabId s" and "getController s t = Some c"
    and "getController s (activeTabId s) = Some a"
    and "id_connector (connector a) = id_connector (connector c)"
  shows "updateContextMenu s t =
     (Inr (), s\<lparr>contextMenu :=
        toggleItem t c # (if isEnabled c then [disableUntilTabClosedItem t c] else [])\<rparr>)"
  using assms
  by (auto simp: getController_def
      updateContextMenu_def resetContextMenu_def addToggleConnectorMenu_def
      addDisableUntilTabClosedItem_def disableUntilTabClosedItem_def
      addContextMenuItem_def toggleItem_def Let_def)

theorem updateContextMenu_dedup_witness:
  "6 \<noteq> activeTabId demoTwoTabs
   \<and> getController demoTwoTabs 6 = Some (demoController 6 Idle 1)
   \<and> getController demoTwoTabs (activeTabId demoTwoTabs) = Some (demoController 5 Playing 0)
   \<and> id_connector (connector (demoController 5 Playing 0))
       = id_connector (connector (demoController 6 Idle 1))
   \<and> contextMenu (snd (updateContextMenu demoTwoTabs 6))
       = [toggleItem 6 (demoController 6 Idle 1),
          disableUntilTabClosedItem 6 (demoController 6 Idle 1)]"
proof -
  have h1: "6 \<noteq> activeTabId demoTwoTabs"
    by (simp add: demoTwoTabs_eq demoPlaying_eq)
  have h2: "getController demoTwoTabs 6 = Some (demoController 6 Idle 1)"
    by (simp add: demoTwoTabs_eq demoPlaying_eq getController_def)
  have h3: "getController demoTwoTabs (activeTabId demoTwoTabs)
      = Some (demoController 5 Playing 0)"
    by (simp add: demoTwoTabs_eq demoPlaying_eq getController_def)
  have h4: "id_connector (connector (demoController 5 Playing 0))
      = id_connector (connector (demoController 6 Idle 1))"
    by (simp add: demoController_def)
  from updateContextMenu_dedup[OF h1 h2 h3 h4] h1 h2 h3 h4 show ?thesis
    by (simp add: demoController_def)
qed

text \<open>
  C8: for every tab, with or without a controller, a \<^verbatim>\<open>REQUEST_ACTIVE_TABID\<close> message
  resolves to the active tab and leaves the worker as it was: no warning is logged and no
  controller is touched.
\<close>

theorem processMessage_request_active_tabid:
  "processMessage K s t ''REQUEST_ACTIVE_TABID'' dat = (Inr (RespTabId (activeTabId s)), s)"
  by (simp add: processMessage_def)

text \<open>
  C9, as stated: \<^verbatim>\<open>processPortMessage\<close> never changes the active tab. This fails when
  the controller changes its mode while it handles the message: tab 5 is the active tab,
  the page of tab 6 reports a state, the controller of tab 6 starts playing and calls
  \<^verbatim>\<open>onModeChanged\<close>, and \<^verbatim>\<open>processControlleModeChange\<close> makes tab 6 the active tab
  before \<^verbatim>\<open>processPortMessage\<close> returns.
\<close>

theorem processPortMessage_moves_activeTabId:
  "reachable demoExternals demoTwoTabs
   \<and> activeTabId demoTwoTabs = 5
   \<and> activeTabId (snd (processPortMessage demoExternals demoTwoTabs 6
        ''EVENT_STATE_CHANGED'' \<lparr>isLoved = False, payload = ()\<rparr>)) = 6"
proof -
  have "activeTabId (snd (processPortMessage demoExternals demoTwoTabs 6
      ''EVENT_STATE_CHANGED'' \<lparr>isLoved = False, payload = ()\<rparr>)) = 6"
    by (simp add: demoTwoTabs_eq demoPlaying_eq)
       (simp add: demoExternals_def demoConnector_def demoController_def model_defs)
  moreover have "activeTabId demoTwoTabs = 5"
    by (simp add: demoTwoTabs_eq demoPlaying_eq)
  ultimately show ?thesis
    using reachable_demoTwoTabs by simp
qed

text \<open>
  C9, amended: \<^verbatim>\<open>processPortMessage(tabId, type, data)\<close> keeps the keys of the table
  and the current tab; the active tab afterwards is the one before or \<open>tabId\<close> (in a
  table that stores each controller under its own tab id), and it is the one before when every mode the controller of \<open>tabId\<close> reports through
  \<^verbatim>\<open>onModeChanged\<close> while it handles the message is inactive (in particular when it
  reports none); and when the type is not \<^verbatim>\<open>EVENT_STATE_CHANGED\<close> or the tab has no
  controller, the method returns and keeps the whole worker.
\<close>

theorem processPortMessage_frame_with_callbacks:
  "map fst (tabControllers (snd (processPortMessage K s t type dat)))
     = map fst (tabControllers s)
   \<and> currentTabId (snd (processPortMessage K s t type dat)) = currentTabId s
   \<and> (wf_worker s
        \<longrightarrow> activeTabId (snd (processPortMessage K s t type dat)) = activeTabId s
          \<or> activeTabId (snd (processPortMessage K s t type dat)) = t)
   \<and> ((\<forall>ctrl. getController s t = Some ctrl
          \<longrightarrow> list_all (isInactiveMode K) (snd (onStateChanged K ctrl (payload dat))))
        \<longrightarrow> activeTabId (snd (processPortMessage K s t type dat)) = activeTabId s)
   \<and> (type \<noteq> ''EVENT_STATE_CHANGED'' \<or> getController s t = None
        \<longrightarrow> processPortMessage K s t type dat = (Inr (), s))"
proof -
  let ?s' = "snd (processPortMessage K s t type dat)"
  have keys: "map fst (tabControllers ?s') = map fst (tabControllers s)"
    and cur: "currentTabId ?s' = currentTabId s"
    by (simp_all add: processPortMessage_def case_prod_beta split: option.splits)
  have act: "activeTabId ?s' = activeTabId s \<or> activeTabId ?s' = t" if wf: "wf_worker s"
  proof (cases "type = ''EVENT_STATE_CHANGED''")
    case False
    then show ?thesis by (simp add: processPortMessage_def)
  next
    case True
    show ?thesis
    proof (cases "getController s t")
      case None
      with True show ?thesis by (simp add: processPortMessage_def)
    next
      case (Some ctrl)
      let ?r = "onStateChanged K ctrl (payload dat)"
      from wf Some have "tabId ctrl = t"
        by (rule keyed_lookup)
      with reportModes_active[of K "onSong t (\<lambda>x. fst ?r) s" ctrl "snd ?r"] True Some
      show ?thesis by (simp add: processPortMessage_def case_prod_beta)
    qed
  qed
  have quiet: "activeTabId ?s' = activeTabId s"
    if "\<forall>ctrl. getController s t = Some ctrl
          \<longrightarrow> list_all (isInactiveMode K) (snd (onStateChanged K ctrl (payload dat)))"
    using that
    by (auto simp: processPortMessage_def case_prod_beta reportModes_inactive
        split: option.splits)
  have same: "processPortMessage K s t type dat = (Inr (), s)"
    if "type \<noteq> ''EVENT_STATE_CHANGED'' \<or> getController s t = None"
    using that by (auto simp: processPortMessage_def)
  from keys cur act quiet same show ?thesis by blast
qed

theorem processPortMessage_frame_with_callbacks_witness:
  "wf_worker demoTwoTabs
   \<and> getController demoTwoTabs 7 = None
   \<and> processPortMessage demoExternals demoTwoTabs 7 ''EVENT_STATE_CHANGED''
        \<lparr>isLoved = False, payload = ()\<rparr> = (Inr (), demoTwoTabs)
   \<and> processPortMessage demoExternals demoTwoTabs 5 ''EVENT_SOMETHING_ELSE''
        \<lparr>isLoved = False, payload = ()\<rparr> = (Inr (), demoTwoTabs)
   \<and> map fst (tabControllers (snd (processPortMessage demoExternals demoTwoTabs 6
        ''EVENT_STATE_CHANGED'' \<lparr>isLoved = False, payload = ()\<rparr>))) = [5, 6]
   \<and> currentTabId (snd (processPortMessage demoExternals demoTwoTabs 6
        ''EVENT_STATE_CHANGED'' \<lparr>isLoved = False, payload = ()\<rparr>)) = 5
   \<and> getController demoTwoTabs 6 = Some (demoController 6 Idle 1)
   \<and> list_all (isInactiveMode demoExternals)
        (snd (onStateChanged (demoExternals\<lparr>onStateChanged := \<lambda>ctrl d. (True, [Idle])\<rparr>)
               (demoController 6 Idle 1) ()))
   \<and> activeTabId (snd (processPortMessage
        (demoExternals\<lparr>onStateChanged := \<lambda>ctrl d. (True, [Idle])\<rparr>) demoTwoTabs 6
        ''EVENT_STATE_CHANGED'' \<lparr>isLoved = False, payload = ()\<rparr>)) = 5"
proof -
  let ?d = "\<lparr>isLoved = False, payload = ()\<rparr>"
  let ?Q = "demoExternals\<lparr>onStateChanged := \<lambda>ctrl d. (True, [Idle])\<rparr>"
  have h: "getController demoTwoTabs 7 = None"
    by (simp add: demoTwoTabs_eq demoPlaying_eq getController_def)
  have k: "map fst (tabControllers demoTwoTabs) = [5, 6]"
    and c: "currentTabId demoTwoTabs = 5" and a: "activeTabId demoTwoTabs = 5"
    by (simp_all add: demoTwoTabs_eq demoPlaying_eq)
  have g: "getController demoTwoTabs 6 = Some (demoController 6 Idle 1)"
    by (simp add: demoTwoTabs_eq demoPlaying_eq getController_def)
  have w: "wf_worker demoTwoTabs"
    by (simp add: demoTwoTabs_eq demoPlaying_eq wf_worker_def demoController_def)
  have q: "list_all (isInactiveMode ?Q) (snd (onStateChanged ?Q (demoController 6 Idle 1) ()))"
    and q': "list_all (isInactiveMode demoExternals)
      (snd (onStateChanged ?Q (demoController 6 Idle 1) ()))"
    by (simp_all add: demoExternals_def)
  from processPortMessage_frame_with_callbacks[of demoExternals demoTwoTabs 7
      "''EVENT_STATE_CHANGED''" ?d]
    processPortMessage_frame_with_callbacks[of demoExternals demoTwoTabs 5
      "''EVENT_SOMETHING_ELSE''" ?d]
    processPortMessage_frame_with_callbacks[of demoExternals demoTwoTabs 6
      "''EVENT_STATE_CHANGED''" ?d]
    processPortMessage_frame_with_callbacks[of ?Q demoTwoTabs 6
      "''EVENT_STATE_CHANGED''" ?d]
    h k c a g w q q'
  show ?thesis by simp
qed

text \<open>
  C10: for a tab with a controller, a \<^verbatim>\<open>REQUEST_TOGGLE_LOVE\<close> message resolves, once
  \<^verbatim>\<open>toggleLove\<close> has resolved, to \<^verbatim>\<open>data.isLoved\<close>, whatever state \<^verbatim>\<open>toggleLove\<close>
  left the controller in.
\<close>

theorem processMessage_toggle_love_echo:
  assumes "getController s t = Some ctrl"
    and "fst (toggleLove K (song ctrl) (isLoved dat)) = Inr ()"
  shows "fst (processMessage K s t ''REQUEST_TOGGLE_LOVE'' dat) = Inr (RespBool (isLoved dat))"
  using assms by (simp add: processMessage_def case_prod_beta sum.case_eq_if)

theorem processMessage_toggle_love_echo_witness:
  "getController demoPlaying 5 = Some (demoController 5 Playing 0)
   \<and> toggleLove demoExternals (song (demoController 5 Playing 0)) True = (Inr (), False)
   \<and> fst (processMessage demoExternals demoPlaying 5 ''REQUEST_TOGGLE_LOVE''
        \<lparr>isLoved = True, payload = ()\<rparr>) = Inr (RespBool True)"
proof -
  have h1: "getController demoPlaying 5 = Some (demoController 5 Playing 0)"
    by (simp add: demoPlaying_eq getController_def)
  have h2: "toggleLove demoExternals (song (demoController 5 Playing 0)) True = (Inr (), False)"
    by (simp add: demoExternals_def demoController_def)
  have h3: "fst (toggleLove demoExternals (song (demoController 5 Playing 0))
      (isLoved \<lparr>isLoved = True, payload = ()\<rparr>)) = Inr ()"
    using h2 by simp
  from processMessage_toggle_love_echo[OF h1 h3] h1 h2 show ?thesis
    by simp
qed

end
